theory Spec2Isabelle
  imports Main "HOL-Library.AList"
begin

section \<open>The machine the agent runs on\<close>

text \<open>
  The deployment pipeline of \<^verbatim>\<open>nix/nix.go\<close> is a chain of external commands and file
  system calls. The model threads an explicit world through every function. The world
  records, in order, every system call and every spawned process (\<open>trace\<close>), every
  log line (\<open>logs\<close>), and the symbolic links of the file system (\<open>links\<close>). Whatever
  else the machine holds (the Nix store, the system profile, the loaded systemd units,
  the contents of files) is the abstract component \<open>ext\<close>, which only the environment
  reads and changes.
\<close>

datatype event =
    EvMkdirAll string
  | EvReadFile string
  | EvRemove string
  | EvSymlink string string
  | EvRun string "string list"

datatype level = Debug | Info

record 'x world =
  ext :: 'x
  links :: "string \<rightharpoonup> string"
  trace :: "event list"
  logs :: "(level \<times> string) list"

text \<open>
  JSON documents after parsing. The lexical layer of \<^verbatim>\<open>encoding/json\<close> is a parameter
  of the environment; the type-directed decoding into Go values is modelled below.
\<close>

datatype json =
    JNull
  | JBool bool
  | JNumber string
  | JString string
  | JArray "json list"
  | JObject "(string \<times> json) list"

text \<open>
  The environment answers for everything outside the program: the result of a process
  (\<open>Inl\<close> the error of \<^verbatim>\<open>cmd.Run()\<close>, \<open>Inr\<close> the captured standard output) together
  with its effect on the machine, the result of reading a file, the failures of the
  file system calls, the JSON parser, SHA-256, and the order in which the Go runtime
  iterates over a map (a list of choices, see \<open>permute\<close>).
\<close>

record 'x env =
  run_cmd :: "string \<Rightarrow> string list \<Rightarrow> 'x \<Rightarrow> (string + string) \<times> 'x"
  read_file :: "string \<Rightarrow> 'x \<Rightarrow> string + string"
  mkdir_all :: "string \<Rightarrow> 'x \<Rightarrow> string option \<times> 'x"
  remove_fails :: "string \<Rightarrow> 'x \<Rightarrow> string option"
  symlink_fails :: "string \<Rightarrow> string \<Rightarrow> 'x \<Rightarrow> string option"
  parse_json :: "string \<Rightarrow> string + json"
  sha256 :: "string \<Rightarrow> string"
  range_order :: "'x \<Rightarrow> nat list"

text \<open>
  Errors are values. Each constructor is one \<^verbatim>\<open>fmt.Errorf\<close> site of the source (or an
  error handed up unchanged from the operating system or the JSON decoder) and carries
  the arguments of its format string; \<open>Error\<close> renders the message.
\<close>

datatype error =
    OsError string
  | JsonError string
  | CommandFails string string
  | SystemctlCatFails string
  | SwitchFails string string
  | CannotReadMachineId string
  | MachineIdMismatch string string
  | SymlinkFailed string string string

fun Error :: "error \<Rightarrow> string" where
  "Error (OsError e) = e"
| "Error (JsonError e) = e"
| "Error (CommandFails cmdStr e) = ''Command '' @ [CHR 0x27] @ cmdStr @ [CHR 0x27] @ '' fails with '' @ e"
| "Error (SystemctlCatFails e) =
     ''Command '' @ [CHR 0x27] @ ''systemctl cat comin.service'' @ [CHR 0x27] @ '' fails with '' @ e"
| "Error (SwitchFails exe e) = ''Command '' @ exe @ '' switch fails with '' @ e"
| "Error (CannotReadMachineId e) =
     ''Can not read file '' @ [CHR 0x27] @ ''/etc/machine-id'' @ [CHR 0x27] @ '': '' @ e"
| "Error (MachineIdMismatch expected actual) =
     ''Skip deployment because the comin expected machine id '' @ [CHR 0x27] @ expected @ [CHR 0x27]
       @ '' is not equal to the actual machine id '' @ [CHR 0x27] @ actual @ [CHR 0x27]"
| "Error (SymlinkFailed outPath gcRoot e) =
     ''Failed to create symlink '' @ [CHR 0x27] @ ''ln -s '' @ outPath @ '' '' @ gcRoot @ [CHR 0x27]
       @ '': '' @ e"

text \<open>A Go function either returns its results or panics.\<close>

datatype 'a outcome = Returns 'a | Panics string

subsection \<open>Library functions of Go\<close>

text \<open>\<^verbatim>\<open>strings.Join(elems, sep)\<close>.\<close>

fun strings_Join :: "string list \<Rightarrow> string \<Rightarrow> string" where
  "strings_Join [] sep = []"
| "strings_Join [x] sep = x"
| "strings_Join (x # y # ys) sep = x @ sep @ strings_Join (y # ys) sep"

text \<open>\<^verbatim>\<open>strings.TrimSuffix(s, suffix)\<close>: \<open>s\<close> without the suffix when it ends with it.\<close>

definition strings_TrimSuffix :: "string \<Rightarrow> string \<Rightarrow> string" where
  "strings_TrimSuffix s suffix =
     (if length suffix \<le> length s \<and> drop (length s - length suffix) s = suffix
      then take (length s - length suffix) s else s)"

text \<open>
  \<^verbatim>\<open>filepath.Join\<close> on Unix: the non-empty elements joined by a slash, then
  \<^verbatim>\<open>filepath.Clean\<close>: empty and \<^verbatim>\<open>.\<close> elements dropped, an inner \<^verbatim>\<open>..\<close> elided with
  the element before it, \<^verbatim>\<open>..\<close> at the root dropped, and \<^verbatim>\<open>.\<close> for an empty result.
\<close>

fun split_slash :: "string \<Rightarrow> string \<Rightarrow> string list" where
  "split_slash acc [] = [rev acc]"
| "split_slash acc (c # cs) =
     (if c = CHR ''/'' then rev acc # split_slash [] cs else split_slash (c # acc) cs)"

fun clean_elems :: "bool \<Rightarrow> string list \<Rightarrow> string list \<Rightarrow> string list" where
  "clean_elems rooted stack [] = rev stack"
| "clean_elems rooted stack (e # es) =
     (if e = [] \<or> e = ''.'' then clean_elems rooted stack es
      else if e = ''..'' then
        (case stack of
           [] \<Rightarrow> if rooted then clean_elems rooted [] es else clean_elems rooted [''..''] es
         | s # ss \<Rightarrow>
             if s = ''..'' then clean_elems rooted (''..'' # stack) es
             else clean_elems rooted ss es)
      else clean_elems rooted (e # stack) es)"

definition filepath_Clean :: "string \<Rightarrow> string" where
  "filepath_Clean p =
     (if p = [] then ''.''
      else
        let rooted = (hd p = CHR ''/'');
            body = strings_Join (clean_elems rooted [] (split_slash [] p)) ''/''
        in if rooted then CHR ''/'' # body
           else if body = [] then ''.'' else body)"

definition filepath_Join :: "string list \<Rightarrow> string" where
  "filepath_Join elems =
     (let es = filter (\<lambda>e. e \<noteq> []) elems
      in if es = [] then [] else filepath_Clean (strings_Join es ''/''))"

text \<open>\<^verbatim>\<open>fmt.Sprintf("%x", sum)\<close> of a byte array: two lower-case hexadecimal digits a byte.\<close>

definition hex_digit :: "nat \<Rightarrow> char" where
  "hex_digit n = ''0123456789abcdef'' ! (n mod 16)"

definition hex :: "string \<Rightarrow> string" where
  "hex bs = concat (map (\<lambda>c. [hex_digit (of_char c div 16), hex_digit (of_char c)]) bs)"

text \<open>
  The order of a \<^verbatim>\<open>range\<close> over a map is not specified by Go and may differ from one
  iteration to the next. A list of choices picks the next element among the remaining
  ones; every order of the entries is the result of some list of choices.
\<close>

fun permute :: "nat list \<Rightarrow> 'a list \<Rightarrow> 'a list" where
  "permute cs [] = []"
| "permute [] (x # xs) = x # xs"
| "permute (c # cs) (x # xs) =
     (let i = c mod length (x # xs)
      in (x # xs) ! i # permute cs (take i (x # xs) @ drop (Suc i) (x # xs)))"

subsection \<open>Decoding JSON into Go values\<close>

text \<open>
  \<^verbatim>\<open>json.Unmarshal\<close> into a \<^verbatim>\<open>*string\<close>: \<^verbatim>\<open>null\<close> leaves the pointer nil, a string
  is stored, any other value is a type error.
\<close>

definition unmarshal_string_ptr :: "'x env \<Rightarrow> string \<Rightarrow> string + string option" where
  "unmarshal_string_ptr E bytes =
     (case parse_json E bytes of
        Inl e \<Rightarrow> Inl e
      | Inr JNull \<Rightarrow> Inr None
      | Inr (JString s) \<Rightarrow> Inr (Some s)
      | Inr _ \<Rightarrow> Inl ''json: cannot unmarshal value into Go value of type string'')"

record Path =
  Path :: string

record Output =
  Out :: Path

record Derivation =
  Outputs :: Output

text \<open>
  Keys of a JSON object are matched with the field's tag without regard to the case of
  ASCII letters; unknown keys are skipped; \<^verbatim>\<open>null\<close> leaves the field as it is; a
  later duplicate key is decoded into the same field.
\<close>

definition ascii_lower :: "char \<Rightarrow> char" where
  "ascii_lower c =
     (let n = (of_char c :: nat) in if 65 \<le> n \<and> n \<le> 90 then char_of (n + 32) else c)"

definition equalFold :: "string \<Rightarrow> string \<Rightarrow> bool" where
  "equalFold a b = (map ascii_lower a = map ascii_lower b)"

fun decode_fields :: "(string \<Rightarrow> json \<Rightarrow> 'a \<Rightarrow> string + 'a) \<Rightarrow> (string \<times> json) list \<Rightarrow> 'a \<Rightarrow> string + 'a" where
  "decode_fields f [] cur = Inr cur"
| "decode_fields f ((k, v) # kvs) cur =
     (case f k v cur of Inl e \<Rightarrow> Inl e | Inr cur' \<Rightarrow> decode_fields f kvs cur')"

definition decode_string :: "json \<Rightarrow> string \<Rightarrow> string + string" where
  "decode_string j cur =
     (case j of
        JNull \<Rightarrow> Inr cur
      | JString s \<Rightarrow> Inr s
      | _ \<Rightarrow> Inl ''json: cannot unmarshal value into Go struct field of type string'')"

definition decode_Path :: "json \<Rightarrow> Path \<Rightarrow> string + Path" where
  "decode_Path j cur =
     (case j of
        JNull \<Rightarrow> Inr cur
      | JObject kvs \<Rightarrow>
          decode_fields
            (\<lambda>k v c. if equalFold k ''path''
                      then (case decode_string v (Path c) of
                              Inl e \<Rightarrow> Inl e | Inr s \<Rightarrow> Inr (c\<lparr>Path := s\<rparr>))
                      else Inr c)
            kvs cur
      | _ \<Rightarrow> Inl ''json: cannot unmarshal value into Go value of type nix.Path'')"

definition decode_Output :: "json \<Rightarrow> Output \<Rightarrow> string + Output" where
  "decode_Output j cur =
     (case j of
        JNull \<Rightarrow> Inr cur
      | JObject kvs \<Rightarrow>
          decode_fields
            (\<lambda>k v c. if equalFold k ''out''
                      then (case decode_Path v (Out c) of
                              Inl e \<Rightarrow> Inl e | Inr p \<Rightarrow> Inr (c\<lparr>Out := p\<rparr>))
                      else Inr c)
            kvs cur
      | _ \<Rightarrow> Inl ''json: cannot unmarshal value into Go value of type nix.Output'')"

definition decode_Derivation :: "json \<Rightarrow> Derivation \<Rightarrow> string + Derivation" where
  "decode_Derivation j cur =
     (case j of
        JNull \<Rightarrow> Inr cur
      | JObject kvs \<Rightarrow>
          decode_fields
            (\<lambda>k v c. if equalFold k ''outputs''
                      then (case decode_Output v (Outputs c) of
                              Inl e \<Rightarrow> Inl e | Inr p \<Rightarrow> Inr (c\<lparr>Outputs := p\<rparr>))
                      else Inr c)
            kvs cur
      | _ \<Rightarrow> Inl ''json: cannot unmarshal value into Go value of type nix.Derivation'')"

definition zero_Derivation :: Derivation where
  "zero_Derivation = \<lparr>Outputs = \<lparr>Out = \<lparr>Path = []\<rparr>\<rparr>\<rparr>"

text \<open>
  A \<^verbatim>\<open>map[string]Derivation\<close> is an association list with distinct keys. Each member
  of the JSON object is decoded into a fresh element and stored under its key, a
  later duplicate replacing the earlier one; \<^verbatim>\<open>null\<close> leaves the map nil, which has
  no entries.
\<close>

fun decode_map :: "(string \<times> json) list \<Rightarrow> (string \<times> Derivation) list \<Rightarrow> string + (string \<times> Derivation) list" where
  "decode_map [] m = Inr m"
| "decode_map ((k, v) # kvs) m =
     (case decode_Derivation v zero_Derivation of
        Inl e \<Rightarrow> Inl e
      | Inr d \<Rightarrow> decode_map kvs (AList.update k d m))"

definition unmarshal_derivations :: "'x env \<Rightarrow> string \<Rightarrow> string + (string \<times> Derivation) list" where
  "unmarshal_derivations E bytes =
     (case parse_json E bytes of
        Inl e \<Rightarrow> Inl e
      | Inr JNull \<Rightarrow> Inr []
      | Inr (JObject kvs) \<Rightarrow> decode_map kvs []
      | Inr _ \<Rightarrow>
          Inl ''json: cannot unmarshal value into Go value of type map[string]nix.Derivation'')"

text \<open>\<^verbatim>\<open>output[key]\<close>: the zero value for a key the map does not have.\<close>

definition map_index :: "(string \<times> Derivation) list \<Rightarrow> string \<Rightarrow> Derivation" where
  "map_index m k = (case map_of m k of Some d \<Rightarrow> d | None \<Rightarrow> zero_Derivation)"

text \<open>\<^verbatim>\<open>for key := range output { keys = append(keys, key) }\<close>.\<close>

definition range_keys :: "nat list \<Rightarrow> (string \<times> Derivation) list \<Rightarrow> string list" where
  "range_keys order m = map fst (permute order m)"

subsection \<open>System calls\<close>

definition logrus_Infof :: "string \<Rightarrow> 'x world \<Rightarrow> 'x world" where
  "logrus_Infof msg w = w\<lparr>logs := logs w @ [(Info, msg)]\<rparr>"

definition logrus_Debugf :: "string \<Rightarrow> 'x world \<Rightarrow> 'x world" where
  "logrus_Debugf msg w = w\<lparr>logs := logs w @ [(Debug, msg)]\<rparr>"

text \<open>\<^verbatim>\<open>exec.Command(name, args...).Run()\<close> with the standard output captured.\<close>

definition exec_Run :: "'x env \<Rightarrow> string \<Rightarrow> string list \<Rightarrow> 'x world \<Rightarrow> (string + string) \<times> 'x world" where
  "exec_Run E name args w =
     (case run_cmd E name args (ext w) of
        (r, x') \<Rightarrow> (r, w\<lparr>ext := x', trace := trace w @ [EvRun name args]\<rparr>))"

definition os_MkdirAll :: "'x env \<Rightarrow> string \<Rightarrow> 'x world \<Rightarrow> string option \<times> 'x world" where
  "os_MkdirAll E p w =
     (case mkdir_all E p (ext w) of
        (r, x') \<Rightarrow> (r, w\<lparr>ext := x', trace := trace w @ [EvMkdirAll p]\<rparr>))"

definition os_ReadFile :: "'x env \<Rightarrow> string \<Rightarrow> 'x world \<Rightarrow> (string + string) \<times> 'x world" where
  "os_ReadFile E p w = (read_file E p (ext w), w\<lparr>trace := trace w @ [EvReadFile p]\<rparr>)"

text \<open>
  \<^verbatim>\<open>os.Remove\<close> deletes the link unless the environment refuses;
  \<^verbatim>\<open>os.Symlink\<close> fails when the environment refuses or the name is taken.
\<close>

definition os_Remove :: "'x env \<Rightarrow> string \<Rightarrow> 'x world \<Rightarrow> string option \<times> 'x world" where
  "os_Remove E p w =
     (let w' = w\<lparr>trace := trace w @ [EvRemove p]\<rparr>
      in case remove_fails E p (ext w) of
           Some e \<Rightarrow> (Some e, w')
         | None \<Rightarrow> (None, w'\<lparr>links := (links w)(p := None)\<rparr>))"

definition os_Symlink :: "'x env \<Rightarrow> string \<Rightarrow> string \<Rightarrow> 'x world \<Rightarrow> string option \<times> 'x world" where
  "os_Symlink E target p w =
     (let w' = w\<lparr>trace := trace w @ [EvSymlink target p]\<rparr>
      in case symlink_fails E target p (ext w) of
           Some e \<Rightarrow> (Some e, w')
         | None \<Rightarrow>
             if links w p \<noteq> None then (Some ''file exists'', w')
             else (None, w'\<lparr>links := (links w)(p \<mapsto> target)\<rparr>))"

section \<open>The deployment pipeline\<close>

text \<open>\<^verbatim>\<open>runNixCommand\<close>: the error and the captured standard output.\<close>

definition commonArgs :: "string list" where
  "commonArgs = [''--extra-experimental-features'', ''nix-command'',
                 ''--extra-experimental-features'', ''flakes'']"

definition runNixCommand :: "'x env \<Rightarrow> string list \<Rightarrow> 'x world \<Rightarrow> (error option \<times> string) \<times> 'x world" where
  "runNixCommand E args0 w =
     (let args = commonArgs @ args0;
          cmdStr = ''nix '' @ strings_Join args '' '';
          w1 = logrus_Infof (''Running '' @ [CHR 0x27] @ cmdStr @ [CHR 0x27]) w
      in case exec_Run E ''nix'' args w1 of
           (Inl e, w2) \<Rightarrow> ((Some (CommandFails cmdStr e), []), w2)
         | (Inr out, w2) \<Rightarrow> ((None, out), w2))"

text \<open>\<^verbatim>\<open>getExpectedMachineId\<close> returns \<open>(isSet, machineId, err)\<close>.\<close>

definition getExpectedMachineId :: "'x env \<Rightarrow> string \<Rightarrow> string \<Rightarrow> 'x world \<Rightarrow> (bool \<times> string \<times> error option) \<times> 'x world" where
  "getExpectedMachineId E path hostname w =
     (let expr = path @ ''#nixosConfigurations.'' @ hostname @ ''.config.services.comin.machineId''
      in case runNixCommand E [''eval'', expr, ''--json''] w of
           ((Some e, out), w1) \<Rightarrow> ((False, [], Some e), w1)
         | ((None, out), w1) \<Rightarrow>
             (case unmarshal_string_ptr E out of
                Inl e \<Rightarrow> ((False, [], Some (JsonError e)), w1)
              | Inr (Some machineId) \<Rightarrow>
                  ((True, machineId, None),
                   logrus_Debugf (''Getting comin.machineId = '' @ machineId) w1)
              | Inr None \<Rightarrow>
                  ((False, [], None),
                   logrus_Debugf ''Getting comin.machineId = null (not set)'' w1)))"

text \<open>
  \<^verbatim>\<open>showDerivation\<close> returns \<open>(drvPath, outPath, err)\<close>, or panics on \<^verbatim>\<open>keys[0]\<close>
  when the map has no entry.
\<close>

definition showDerivation :: "'x env \<Rightarrow> string \<Rightarrow> string \<Rightarrow> 'x world \<Rightarrow> (string \<times> string \<times> error option) outcome \<times> 'x world" where
  "showDerivation E path hostname w =
     (let installable = path @ ''#nixosConfigurations.'' @ hostname @ ''.config.system.build.toplevel''
      in case runNixCommand E [''show-derivation'', installable, ''-L''] w of
           ((Some e, out), w1) \<Rightarrow> (Returns ([], [], Some e), w1)
         | ((None, out), w1) \<Rightarrow>
             (case unmarshal_derivations E out of
                Inl e \<Rightarrow> (Returns ([], [], Some (JsonError e)), w1)
              | Inr output \<Rightarrow>
                  (case range_keys (range_order E (ext w1)) output of
                     [] \<Rightarrow> (Panics ''runtime error: index out of range [0] with length 0'', w1)
                   | drvPath # ks \<Rightarrow>
                       let outPath = Path (Out (Outputs (map_index output drvPath)));
                           w2 = logrus_Infof (''The derivation path is '' @ drvPath) w1;
                           w3 = logrus_Infof (''The output path is '' @ outPath) w2
                       in (Returns (drvPath, outPath, None), w3))))"

text \<open>\<^verbatim>\<open>Build\<close> returns \<open>(outPath, err)\<close>.\<close>

definition Build :: "'x env \<Rightarrow> string \<Rightarrow> string \<Rightarrow> 'x world \<Rightarrow> (string \<times> error option) outcome \<times> 'x world" where
  "Build E path hostname w =
     (case showDerivation E path hostname w of
        (Panics m, w1) \<Rightarrow> (Panics m, w1)
      | (Returns (drvPath, outPath, Some e), w1) \<Rightarrow> (Returns (outPath, Some e), w1)
      | (Returns (drvPath, outPath, None), w1) \<Rightarrow>
          (case runNixCommand E [''build'', drvPath, ''-L'', ''--no-link''] w1 of
             ((err, out), w2) \<Rightarrow> (Returns (outPath, err), w2)))"

text \<open>\<^verbatim>\<open>checkMachineId\<close>.\<close>

definition checkMachineId :: "'x env \<Rightarrow> string \<Rightarrow> string \<Rightarrow> 'x world \<Rightarrow> error option \<times> 'x world" where
  "checkMachineId E path hostname w =
     (case getExpectedMachineId E path hostname w of
        ((isSet, expectedMachineId, Some e), w1) \<Rightarrow> (Some e, w1)
      | ((isSet, expectedMachineId, None), w1) \<Rightarrow>
          if isSet then
            (case os_ReadFile E ''/etc/machine-id'' w1 of
               (Inl e, w2) \<Rightarrow> (Some (CannotReadMachineId e), w2)
             | (Inr machineIdBytes, w2) \<Rightarrow>
                 let machineId = strings_TrimSuffix machineIdBytes [CHR 0x0A]
                 in if expectedMachineId \<noteq> machineId
                    then (Some (MachineIdMismatch expectedMachineId machineId), w2)
                    else (None, w2))
          else (None, w1))"

text \<open>\<^verbatim>\<open>setSystemProfile\<close>.\<close>

definition setSystemProfile :: "'x env \<Rightarrow> string \<Rightarrow> string \<Rightarrow> bool \<Rightarrow> 'x world \<Rightarrow> error option \<times> 'x world" where
  "setSystemProfile E operation outPath dryRun w =
     (if operation = ''switch'' \<or> operation = ''boot'' then
        let cmdStr = ''nix-env --profile /nix/var/nix/profiles/system --set '' @ outPath;
            w1 = logrus_Infof (''Running '' @ [CHR 0x27] @ cmdStr @ [CHR 0x27]) w
        in if dryRun then
             (None, logrus_Infof (''Dry-run enabled: '' @ [CHR 0x27] @ cmdStr @ [CHR 0x27]
                                    @ '' has not been executed'') w1)
           else
             (case exec_Run E ''nix-env''
                     [''--profile'', ''/nix/var/nix/profiles/system'', ''--set'', outPath] w1 of
                (Inl e, w2) \<Rightarrow> (Some (CommandFails cmdStr e), w2)
              | (Inr out, w2) \<Rightarrow>
                  (None, logrus_Infof (''Command '' @ [CHR 0x27] @ cmdStr @ [CHR 0x27]
                                         @ '' succeeded'') w2))
      else (None, w))"


definition createGcRoot :: "'x env \<Rightarrow> string \<Rightarrow> string \<Rightarrow> string \<Rightarrow> bool \<Rightarrow> 'x world \<Rightarrow> error option \<times> 'x world" where
  "createGcRoot E stateDir hostname outPath dryRun w =
     (let gcRootDir = filepath_Join [stateDir, ''gcroots''];
          gcRoot = filepath_Join [gcRootDir, ''switch-to-configuration-'' @ hostname]
      in if dryRun then
           (None, logrus_Infof (''Dry-run enabled: '' @ [CHR 0x27] @ ''ln -s '' @ outPath @ '' ''
                                  @ gcRoot @ [CHR 0x27]) w)
         else
           (case os_MkdirAll E gcRootDir w of
              (Some e, w1) \<Rightarrow> (Some (OsError e), w1)
            | (None, w1) \<Rightarrow>
                (case os_Remove E gcRoot w1 of
                   (r, w2) \<Rightarrow>
                     (case os_Symlink E outPath gcRoot w2 of
                        (Some e, w3) \<Rightarrow> (Some (SymlinkFailed outPath gcRoot e), w3)
                      | (None, w3) \<Rightarrow>
                          (None, logrus_Infof (''Creating gcroot '' @ [CHR 0x27] @ gcRoot
                                                 @ [CHR 0x27]) w3)))))"

text \<open>\<^verbatim>\<open>cominUnitFileHash\<close> returns \<open>(hash, err)\<close>.\<close>

definition cominUnitFileHash :: "'x env \<Rightarrow> 'x world \<Rightarrow> (string \<times> error option) \<times> 'x world" where
  "cominUnitFileHash E w =
     (let w1 = logrus_Infof (''Generating the comin.service unit file sha256: '' @ [CHR 0x27]
                               @ ''systemctl cat comin.service | sha256sum'' @ [CHR 0x27]) w
      in case exec_Run E ''systemctl'' [''cat'', ''comin.service''] w1 of
           (Inl e, w2) \<Rightarrow> (([], Some (SystemctlCatFails e)), w2)
         | (Inr out, w2) \<Rightarrow>
             let hash = hex (sha256 E out)
             in ((hash, None),
                 logrus_Infof (''The comin.service unit file sha256 is '' @ [CHR 0x27] @ hash
                                 @ [CHR 0x27]) w2))"

text \<open>\<^verbatim>\<open>switchToConfiguration\<close>.\<close>

definition switchToConfigurationExe :: "string \<Rightarrow> string" where
  "switchToConfigurationExe outPath = filepath_Join [outPath, ''bin'', ''switch-to-configuration'']"

definition switchToConfiguration :: "'x env \<Rightarrow> string \<Rightarrow> string \<Rightarrow> bool \<Rightarrow> 'x world \<Rightarrow> error option \<times> 'x world" where
  "switchToConfiguration E operation outPath dryRun w =
     (let exe = switchToConfigurationExe outPath;
          w1 = logrus_Infof (''Running '' @ [CHR 0x27] @ exe @ '' '' @ operation @ [CHR 0x27]) w
      in if dryRun then
           (None, logrus_Infof (''Dry-run enabled: '' @ [CHR 0x27] @ exe
                                  @ '' switch'' @ [CHR 0x27] @ '' has not been executed'') w1)
         else
           (case exec_Run E exe [operation] w1 of
              (Inl e, w2) \<Rightarrow> (Some (SwitchFails exe e), w2)
            | (Inr out, w2) \<Rightarrow> (None, logrus_Infof ''Switch successfully terminated'' w2)))"

text \<open>\<^verbatim>\<open>Deploy\<close> returns \<open>(needToRestartComin, err)\<close>.\<close>

definition Deploy :: "'x env \<Rightarrow> string \<Rightarrow> string \<Rightarrow> string \<Rightarrow> string \<Rightarrow> bool \<Rightarrow> 'x world \<Rightarrow> (bool \<times> error option) outcome \<times> 'x world" where
  "Deploy E hostname stateDir path operation dryRun w =
     (case os_MkdirAll E stateDir w of
        (Some e, w1) \<Rightarrow> (Returns (False, Some (OsError e)), w1)
      | (None, w1) \<Rightarrow>
     (case checkMachineId E path hostname w1 of
        (Some e, w2) \<Rightarrow> (Returns (False, Some e), w2)
      | (None, w2) \<Rightarrow>
     (case Build E path hostname w2 of
        (Panics m, w3) \<Rightarrow> (Panics m, w3)
      | (Returns (outPath, Some e), w3) \<Rightarrow> (Returns (False, Some e), w3)
      | (Returns (outPath, None), w3) \<Rightarrow>
     (case cominUnitFileHash E w3 of
        ((h, Some e), w4) \<Rightarrow> (Returns (False, Some e), w4)
      | ((beforeCominUnitFileHash, None), w4) \<Rightarrow>
     (case setSystemProfile E operation outPath dryRun w4 of
        (Some e, w5) \<Rightarrow> (Returns (False, Some e), w5)
      | (None, w5) \<Rightarrow>
     (case switchToConfiguration E operation outPath dryRun w5 of
        (Some e, w6) \<Rightarrow> (Returns (False, Some e), w6)
      | (None, w6) \<Rightarrow>
     (case cominUnitFileHash E w6 of
        ((h, Some e), w7) \<Rightarrow> (Returns (False, Some e), w7)
      | ((afterCominUnitFileHash, None), w7) \<Rightarrow>
          let needToRestartComin = (beforeCominUnitFileHash \<noteq> afterCominUnitFileHash)
          in (case createGcRoot E stateDir hostname outPath dryRun w7 of
                (Some e, w8) \<Rightarrow> (Returns (needToRestartComin, Some e), w8)
              | (None, w8) \<Rightarrow>
                  (Returns (needToRestartComin, None),
                   logrus_Infof ''Deployment succeeded'' w8)))))))))"

text \<open>The events a run adds to the trace of the world it started in.\<close>

definition new_events :: "'x world \<Rightarrow> 'x world \<Rightarrow> event list" where
  "new_events w w' = drop (length (trace w)) (trace w')"

text \<open>
  The commands of the build step (\<^verbatim>\<open>nix show-derivation\<close>, \<^verbatim>\<open>nix build\<close>) and the
  command that sets the system profile, recognised in a trace.
\<close>

definition nix_subcommand :: "event \<Rightarrow> string option" where
  "nix_subcommand ev =
     (case ev of
        EvRun name args \<Rightarrow>
          if name = ''nix'' \<and> take 4 args = commonArgs
          then (case drop 4 args of [] \<Rightarrow> None | sub # rest \<Rightarrow> Some sub)
          else None
      | _ \<Rightarrow> None)"

definition is_build_event :: "event \<Rightarrow> bool" where
  "is_build_event ev =
     (nix_subcommand ev = Some ''show-derivation'' \<or> nix_subcommand ev = Some ''build'')"

definition is_profile_event :: "event \<Rightarrow> bool" where
  "is_profile_event ev = (case ev of EvRun name args \<Rightarrow> name = ''nix-env'' | _ \<Rightarrow> False)"

definition is_link_event :: "event \<Rightarrow> bool" where
  "is_link_event ev = (case ev of EvRemove p \<Rightarrow> True | EvSymlink t p \<Rightarrow> True | _ \<Rightarrow> False)"

section \<open>The webhook\<close>

text \<open>
  \<^verbatim>\<open>http/http.go\<close>. A response writer keeps the first status written and the body;
  writing the body before any status sends 200. The worker behind \<^verbatim>\<open>w.Beat\<close> and the
  state manager are parameters: \<open>beat\<close> answers whether the trigger was accepted and
  gives the worker's next state.
\<close>

record response =
  status :: "nat option"
  body :: string












section \<open>The trigger gate\<close>

text \<open>
  Modelled from the spec: the worker package behind \<^verbatim>\<open>w.Beat\<close> is not part of the
  sources at hand. Section 4.8 of the specification describes the gate: a busy flag,
  tested and set atomically by a trigger, which returns false at once when the flag is
  set; an accepted trigger starts one run of the orchestrator, and the flag is cleared
  when that run completes, whether it succeeded or failed.
\<close>

record gate =
  busy :: bool
  running :: nat

datatype gate_event = Trigger | Complete bool

definition idle_gate :: gate where
  "idle_gate = \<lparr>busy = False, running = 0\<rparr>"

text \<open>
  Modelled from the spec: \<^verbatim>\<open>trigger()\<close>, the test-and-set of the busy flag in one step;
  the worker's \<^verbatim>\<open>Beat\<close> is missing from the sources.
\<close>

definition trigger :: "gate \<Rightarrow> bool \<times> gate" where
  "trigger g = (if busy g then (False, g) else (True, g\<lparr>busy := True, running := Suc (running g)\<rparr>))"

text \<open>
  Modelled from the spec: the end of the orchestrator's run, which clears the flag
  whatever the result; the worker's loop is missing from the sources.
\<close>

definition complete :: "bool \<Rightarrow> gate \<Rightarrow> gate" where
  "complete succeeded g = g\<lparr>busy := False, running := running g - 1\<rparr>"

text \<open>
  Modelled from the spec: the gate under any sequence of triggers and completions,
  from the idle gate.
\<close>

fun gate_step :: "gate \<Rightarrow> gate_event \<Rightarrow> gate" where
  "gate_step g Trigger = snd (trigger g)"
| "gate_step g (Complete succeeded) = complete succeeded g"

definition gate_run :: "gate_event list \<Rightarrow> gate" where
  "gate_run evs = foldl gate_step idle_gate evs"

section \<open>Test doubles\<close>

text \<open>
  A scripted environment for concrete runs. The external state is the text of the
  agent's unit as systemd has it loaded; activation replaces it. The parser knows the
  documents of a table, and the digest is a stand-in (the identity).
\<close>

record scenario =
  eval_result :: "string + string"
  machine_id_file :: "string + string"
  drv_result :: "string + string"
  build_error :: "string option"
  profile_error :: "string option"
  switch_error :: "string option"
  unit_after :: string
  symlink_error :: "string option"
  documents :: "(string \<times> json) list"
  order :: "nat list"

definition demo_run :: "scenario \<Rightarrow> string \<Rightarrow> string list \<Rightarrow> string \<Rightarrow> (string + string) \<times> string" where
  "demo_run sc name args x =
     (if name = ''nix'' then
        (case drop 4 args of
           [] \<Rightarrow> (Inl ''exit status 1'', x)
         | sub # rest \<Rightarrow>
             if sub = ''eval'' then (eval_result sc, x)
             else if sub = ''show-derivation'' then (drv_result sc, x)
             else (case build_error sc of None \<Rightarrow> (Inr [], x) | Some e \<Rightarrow> (Inl e, x)))
      else if name = ''systemctl'' then (Inr x, x)
      else if name = ''nix-env'' then
        (case profile_error sc of None \<Rightarrow> (Inr [], x) | Some e \<Rightarrow> (Inl e, x))
      else (case switch_error sc of None \<Rightarrow> (Inr [], unit_after sc) | Some e \<Rightarrow> (Inl e, x)))"

definition demo_env :: "scenario \<Rightarrow> string env" where
  "demo_env sc =
     \<lparr>run_cmd = demo_run sc,
      read_file = (\<lambda>p x. if p = ''/etc/machine-id'' then machine_id_file sc
                          else Inl ''no such file or directory''),
      mkdir_all = (\<lambda>p x. (None, x)),
      remove_fails = (\<lambda>p x. None),
      symlink_fails = (\<lambda>t p x. symlink_error sc),
      parse_json = (\<lambda>bytes. case map_of (documents sc) bytes of
                                None \<Rightarrow> Inl ''invalid character''
                              | Some j \<Rightarrow> Inr j),
      sha256 = (\<lambda>bytes. bytes),
      range_order = (\<lambda>x. order sc)\<rparr>"

definition quoted :: "string \<Rightarrow> string" where
  "quoted s = CHR 0x22 # s @ [CHR 0x22]"

definition drv_entry_text :: "string \<Rightarrow> string \<Rightarrow> string" where
  "drv_entry_text drv out =
     quoted drv @ '':{'' @ quoted ''outputs'' @ '':{'' @ quoted ''out'' @ '':{''
       @ quoted ''path'' @ '':'' @ quoted out @ ''}}}''"

definition drv_entry_json :: "string \<Rightarrow> string \<Rightarrow> string \<times> json" where
  "drv_entry_json drv out =
     (drv, JObject [(''outputs'', JObject [(''out'', JObject [(''path'', JString out)])])])"

definition web1_text :: string where
  "web1_text = ''{'' @ drv_entry_text ''/nix/store/abc-web1.drv'' ''/nix/store/abc-web1'' @ ''}''"

definition two_text :: string where
  "two_text = ''{'' @ drv_entry_text ''/nix/store/abc-web1.drv'' ''/nix/store/abc-web1'' @ '',''
                 @ drv_entry_text ''/nix/store/xyz-dep.drv'' ''/nix/store/xyz-dep'' @ ''}''"

definition demo_documents :: "(string \<times> json) list" where
  "demo_documents =
     [(''null'', JNull),
      (quoted ''id-1'', JString ''id-1''),
      (''{}'', JObject []),
      (web1_text, JObject [drv_entry_json ''/nix/store/abc-web1.drv'' ''/nix/store/abc-web1'']),
      (two_text, JObject [drv_entry_json ''/nix/store/abc-web1.drv'' ''/nix/store/abc-web1'',
                          drv_entry_json ''/nix/store/xyz-dep.drv'' ''/nix/store/xyz-dep''])]"

text \<open>
  Host \<^verbatim>\<open>web1\<close>: no machine identity configured, one derivation, every command
  succeeds and activation leaves the unit as it was.
\<close>

definition web1 :: scenario where
  "web1 =
     \<lparr>eval_result = Inr ''null'',
      machine_id_file = Inr (''id-1'' @ [CHR 0x0A]),
      drv_result = Inr web1_text,
      build_error = None,
      profile_error = None,
      switch_error = None,
      unit_after = ''[Service]'',
      symlink_error = None,
      documents = demo_documents,
      order = []\<rparr>"

definition world0 :: "string world" where
  "world0 = \<lparr>ext = ''[Service]'', links = Map.empty, trace = [], logs = []\<rparr>"

text \<open>The same host when the derivation query answers with an empty object.\<close>

definition empty_query :: scenario where
  "empty_query = web1\<lparr>drv_result := Inr ''{}''\<rparr>"


text \<open>The same host with a machine identity configured that is not the machine's.\<close>

definition mismatch :: scenario where
  "mismatch = web1\<lparr>eval_result := Inr (quoted ''id-1''),
                     machine_id_file := Inr (''id-2'' @ [CHR 0x0A])\<rparr>"

section \<open>Events of the pipeline steps\<close>

definition eval_event :: "string \<Rightarrow> string \<Rightarrow> event" where
  "eval_event path hostname =
     EvRun ''nix'' (commonArgs @ [''eval'',
        path @ ''#nixosConfigurations.'' @ hostname @ ''.config.services.comin.machineId'',
        ''--json''])"

definition show_event :: "string \<Rightarrow> string \<Rightarrow> event" where
  "show_event path hostname =
     EvRun ''nix'' (commonArgs @ [''show-derivation'',
        path @ ''#nixosConfigurations.'' @ hostname @ ''.config.system.build.toplevel'',
        ''-L''])"

definition build_event :: "string \<Rightarrow> event" where
  "build_event drvPath = EvRun ''nix'' (commonArgs @ [''build'', drvPath, ''-L'', ''--no-link''])"

definition fingerprint_event :: event where
  "fingerprint_event = EvRun ''systemctl'' [''cat'', ''comin.service'']"

definition profile_event :: "string \<Rightarrow> event" where
  "profile_event outPath =
     EvRun ''nix-env'' [''--profile'', ''/nix/var/nix/profiles/system'', ''--set'', outPath]"

definition switch_event :: "string \<Rightarrow> string \<Rightarrow> event" where
  "switch_event operation outPath = EvRun (switchToConfigurationExe outPath) [operation]"

text \<open>The events of the two activation steps and of the recording of the root.\<close>

definition profile_events :: "string \<Rightarrow> string \<Rightarrow> bool \<Rightarrow> event list" where
  "profile_events operation outPath dryRun =
     (if (operation = ''switch'' \<or> operation = ''boot'') \<and> \<not> dryRun
      then [profile_event outPath] else [])"

definition switch_events :: "string \<Rightarrow> string \<Rightarrow> bool \<Rightarrow> event list" where
  "switch_events operation outPath dryRun =
     (if dryRun then [] else [switch_event operation outPath])"

text \<open>
  The events of a run that changes nothing: creating a directory, reading a file,
  asking \<^verbatim>\<open>nix\<close>, and asking systemd for the unit.
\<close>

definition is_quiet_event :: "event \<Rightarrow> bool" where
  "is_quiet_event ev =
     (case ev of
        EvMkdirAll p \<Rightarrow> True
      | EvReadFile p \<Rightarrow> True
      | EvRun name args \<Rightarrow> (name = ''nix'' \<and> take 4 args = commonArgs) \<or> ev = fingerprint_event
      | _ \<Rightarrow> False)"

text \<open>The same host when the derivation query answers with two derivations.\<close>

definition two_entries :: scenario where
  "two_entries = web1\<lparr>drv_result := Inr two_text\<rparr>"






section \<open>Histories of deployments\<close>

text \<open>
  One call of \<open>Deploy\<close> after the other on the same machine, and the output path that
  the successful runs which were no dry runs have recorded last under a given path.
\<close>

record deployment =
  d_hostname :: string
  d_stateDir :: string
  d_path :: string
  d_operation :: string
  d_dryRun :: bool



definition succeeded :: "(bool \<times> error option) outcome \<Rightarrow> bool" where
  "succeeded r = (case r of Returns (b, None) \<Rightarrow> True | _ \<Rightarrow> False)"






section \<open>Properties\<close>

subsection \<open>What each step does to the world\<close>

lemma pair_fstI: "fst p = a \<Longrightarrow> p = (a, snd p)"
  by (cases p) simp

lemma new_events_self [simp]: "new_events w w = []"
  by (simp add: new_events_def)

lemma new_events_trace: "trace w' = trace w @ evs \<Longrightarrow> new_events w w' = evs"
  by (simp add: new_events_def)

lemma other_events_not_build [simp]:
  "\<not> is_build_event (EvMkdirAll p)" "\<not> is_build_event (EvReadFile p)"
  "\<not> is_build_event (EvRemove p)" "\<not> is_build_event (EvSymlink t p)"
  by (simp_all add: is_build_event_def nix_subcommand_def)

lemma other_events_not_profile [simp]:
  "\<not> is_profile_event (EvMkdirAll p)" "\<not> is_profile_event (EvReadFile p)"
  "\<not> is_profile_event (EvRemove p)" "\<not> is_profile_event (EvSymlink t p)"
  by (simp_all add: is_profile_event_def)

lemma runNixCommand_effect:
  assumes "runNixCommand E args w = (r, w')"
  shows "trace w' = trace w @ [EvRun ''nix'' (commonArgs @ args)]" and "links w' = links w"
  using assms
  by (auto simp: runNixCommand_def exec_Run_def logrus_Infof_def Let_def
           split: prod.splits sum.splits)

lemma os_MkdirAll_effect:
  assumes "os_MkdirAll E p w = (r, w')"
  shows "trace w' = trace w @ [EvMkdirAll p]" and "links w' = links w"
  using assms by (auto simp: os_MkdirAll_def split: prod.splits)

lemma getExpectedMachineId_effect:
  assumes "getExpectedMachineId E path hostname w = (r, w')"
  shows "trace w' = trace w @ [eval_event path hostname]" and "links w' = links w"
  using assms
  by (auto simp: getExpectedMachineId_def eval_event_def logrus_Debugf_def Let_def
           dest: runNixCommand_effect
           split: prod.splits sum.splits option.splits)

lemma checkMachineId_effect:
  assumes "checkMachineId E path hostname w = (r, w')"
  shows "trace w' = trace w @ [eval_event path hostname]
         \<or> trace w' = trace w @ [eval_event path hostname, EvReadFile ''/etc/machine-id'']"
    and "links w' = links w"
  using assms
  by (auto simp: checkMachineId_def os_ReadFile_def Let_def
           dest: getExpectedMachineId_effect
           split: prod.splits sum.splits option.splits if_splits)

lemma eval_event_not_build: "\<not> is_build_event (eval_event path hostname)"
  by (simp add: is_build_event_def nix_subcommand_def eval_event_def commonArgs_def)

lemma eval_event_not_profile: "\<not> is_profile_event (eval_event path hostname)"
  by (simp add: is_profile_event_def eval_event_def)

lemma eval_event_not_switch: "EvRun exe [operation] \<noteq> eval_event path hostname"
  by (simp add: eval_event_def commonArgs_def)

lemma showDerivation_effect:
  assumes "showDerivation E path hostname w = (r, w')"
  shows "trace w' = trace w @ [show_event path hostname]" and "links w' = links w"
  using assms
  by (auto simp: showDerivation_def show_event_def logrus_Infof_def Let_def
           dest: runNixCommand_effect
           split: prod.splits sum.splits option.splits list.splits)

lemma Build_effect:
  assumes "Build E path hostname w = (r, w')"
  shows "trace w' = trace w @ [show_event path hostname]
         \<or> (\<exists>drvPath. trace w' = trace w @ [show_event path hostname, build_event drvPath])"
    and "links w' = links w"
proof -
  obtain r1 w1 where s: "showDerivation E path hostname w = (r1, w1)"
    by (cases "showDerivation E path hostname w")
  note e1 = showDerivation_effect [OF s]
  have "(trace w' = trace w @ [show_event path hostname]
         \<or> (\<exists>drvPath. trace w' = trace w @ [show_event path hostname, build_event drvPath]))
        \<and> links w' = links w"
  proof (cases r1)
    case (Panics m)
    with assms s e1 show ?thesis by (simp add: Build_def)
  next
    case (Returns t)
    obtain drvPath outPath err where t: "t = (drvPath, outPath, err)" by (cases t)
    show ?thesis
    proof (cases err)
      case (Some e)
      with assms s e1 Returns t show ?thesis by (simp add: Build_def)
    next
      case None
      obtain r2 w2 where b: "runNixCommand E [''build'', drvPath, ''-L'', ''--no-link''] w1 = (r2, w2)"
        by (cases "runNixCommand E [''build'', drvPath, ''-L'', ''--no-link''] w1")
      from assms s Returns t None b have "w' = w2"
        by (auto simp: Build_def split: prod.splits)
      with runNixCommand_effect [OF b] e1 show ?thesis
        by (auto simp: build_event_def)
    qed
  qed
  then show "trace w' = trace w @ [show_event path hostname]
         \<or> (\<exists>drvPath. trace w' = trace w @ [show_event path hostname, build_event drvPath])"
    and "links w' = links w" by simp_all
qed

lemma Build_success_effect:
  assumes "Build E path hostname w = (Returns (outPath, None), w')"
  shows "\<exists>drvPath. trace w' = trace w @ [show_event path hostname, build_event drvPath]"
proof -
  from assms obtain drvPath w1 out where
    s: "showDerivation E path hostname w = (Returns (drvPath, outPath, None), w1)"
    and b: "runNixCommand E [''build'', drvPath, ''-L'', ''--no-link''] w1 = ((None, out), w')"
    by (auto simp: Build_def split: prod.splits outcome.splits option.splits)
  from showDerivation_effect(1) [OF s] runNixCommand_effect(1) [OF b]
  show ?thesis by (auto simp: build_event_def)
qed

lemma cominUnitFileHash_effect:
  assumes "cominUnitFileHash E w = (r, w')"
  shows "trace w' = trace w @ [fingerprint_event]" and "links w' = links w"
  using assms
  by (auto simp: cominUnitFileHash_def fingerprint_event_def exec_Run_def logrus_Infof_def Let_def
           split: prod.splits sum.splits)


lemma setSystemProfile_effect:
  assumes "setSystemProfile E operation outPath dryRun w = (r, w')"
  shows "trace w' = trace w @ profile_events operation outPath dryRun" and "links w' = links w"
  using assms
  by (auto simp: setSystemProfile_def profile_events_def profile_event_def exec_Run_def
                 logrus_Infof_def Let_def
           split: prod.splits sum.splits if_splits)

lemma switchToConfiguration_effect:
  assumes "switchToConfiguration E operation outPath dryRun w = (r, w')"
  shows "trace w' = trace w @ switch_events operation outPath dryRun" and "links w' = links w"
  using assms
  by (auto simp: switchToConfiguration_def switch_events_def switch_event_def exec_Run_def
                 logrus_Infof_def Let_def
           split: prod.splits sum.splits if_splits)

lemma createGcRoot_dryRun:
  "createGcRoot E stateDir hostname outPath True w = (r, w') \<Longrightarrow>
     r = None \<and> trace w' = trace w \<and> links w' = links w \<and> ext w' = ext w"
  by (auto simp: createGcRoot_def logrus_Infof_def Let_def)


lemma Deploy_cases [consumes 1, case_names mkdir check build hash1 profile switch hash2 gc success]:
  assumes "Deploy E hostname stateDir path operation dryRun w = (r, w')"
  obtains
    e where "os_MkdirAll E stateDir w = (Some e, w')" "r = Returns (False, Some (OsError e))"
  | w1 e where "os_MkdirAll E stateDir w = (None, w1)"
      "checkMachineId E path hostname w1 = (Some e, w')" "r = Returns (False, Some e)"
  | w1 w2 rb where "os_MkdirAll E stateDir w = (None, w1)"
      "checkMachineId E path hostname w1 = (None, w2)"
      "Build E path hostname w2 = (rb, w')"
      "(\<exists>m. rb = Panics m \<and> r = Panics m)
       \<or> (\<exists>out e. rb = Returns (out, Some e) \<and> r = Returns (False, Some e))"
  | w1 w2 w3 outPath h e where "os_MkdirAll E stateDir w = (None, w1)"
      "checkMachineId E path hostname w1 = (None, w2)"
      "Build E path hostname w2 = (Returns (outPath, None), w3)"
      "cominUnitFileHash E w3 = ((h, Some e), w')" "r = Returns (False, Some e)"
  | w1 w2 w3 w4 outPath before e where "os_MkdirAll E stateDir w = (None, w1)"
      "checkMachineId E path hostname w1 = (None, w2)"
      "Build E path hostname w2 = (Returns (outPath, None), w3)"
      "cominUnitFileHash E w3 = ((before, None), w4)"
      "setSystemProfile E operation outPath dryRun w4 = (Some e, w')"
      "r = Returns (False, Some e)"
  | w1 w2 w3 w4 w5 outPath before e where "os_MkdirAll E stateDir w = (None, w1)"
      "checkMachineId E path hostname w1 = (None, w2)"
      "Build E path hostname w2 = (Returns (outPath, None), w3)"
      "cominUnitFileHash E w3 = ((before, None), w4)"
      "setSystemProfile E operation outPath dryRun w4 = (None, w5)"
      "switchToConfiguration E operation outPath dryRun w5 = (Some e, w')"
      "r = Returns (False, Some e)"
  | w1 w2 w3 w4 w5 w6 outPath before h e where "os_MkdirAll E stateDir w = (None, w1)"
      "checkMachineId E path hostname w1 = (None, w2)"
      "Build E path hostname w2 = (Returns (outPath, None), w3)"
      "cominUnitFileHash E w3 = ((before, None), w4)"
      "setSystemProfile E operation outPath dryRun w4 = (None, w5)"
      "switchToConfiguration E operation outPath dryRun w5 = (None, w6)"
      "cominUnitFileHash E w6 = ((h, Some e), w')"
      "r = Returns (False, Some e)"
  | w1 w2 w3 w4 w5 w6 w7 outPath before after e where "os_MkdirAll E stateDir w = (None, w1)"
      "checkMachineId E path hostname w1 = (None, w2)"
      "Build E path hostname w2 = (Returns (outPath, None), w3)"
      "cominUnitFileHash E w3 = ((before, None), w4)"
      "setSystemProfile E operation outPath dryRun w4 = (None, w5)"
      "switchToConfiguration E operation outPath dryRun w5 = (None, w6)"
      "cominUnitFileHash E w6 = ((after, None), w7)"
      "createGcRoot E stateDir hostname outPath dryRun w7 = (Some e, w')"
      "r = Returns (before \<noteq> after, Some e)"
  | w1 w2 w3 w4 w5 w6 w7 w8 outPath before after where "os_MkdirAll E stateDir w = (None, w1)"
      "checkMachineId E path hostname w1 = (None, w2)"
      "Build E path hostname w2 = (Returns (outPath, None), w3)"
      "cominUnitFileHash E w3 = ((before, None), w4)"
      "setSystemProfile E operation outPath dryRun w4 = (None, w5)"
      "switchToConfiguration E operation outPath dryRun w5 = (None, w6)"
      "cominUnitFileHash E w6 = ((after, None), w7)"
      "createGcRoot E stateDir hostname outPath dryRun w7 = (None, w8)"
      "w' = logrus_Infof ''Deployment succeeded'' w8"
      "r = Returns (before \<noteq> after, None)"
  using assms unfolding Deploy_def Let_def
  by (simp split: prod.splits option.splits outcome.splits)

lemma quiet_events [simp]:
  "is_quiet_event (EvMkdirAll p)" "is_quiet_event (EvReadFile p)"
  "is_quiet_event (eval_event path hostname)" "is_quiet_event (show_event path hostname)"
  "is_quiet_event (build_event drvPath)" "is_quiet_event fingerprint_event"
  by (simp_all add: is_quiet_event_def eval_event_def show_event_def build_event_def
                    fingerprint_event_def commonArgs_def)

lemma quiet_event_facts:
  assumes "is_quiet_event ev"
  shows "\<not> is_profile_event ev" and "\<not> is_link_event ev" and "ev \<noteq> switch_event operation outPath"
  using assms
  by (auto simp: is_quiet_event_def is_profile_event_def is_link_event_def switch_event_def
                 fingerprint_event_def commonArgs_def
           split: event.splits)

lemma Deploy_dryRun_effect:
  assumes "Deploy E hostname stateDir path operation True w = (r, w')"
  shows "\<exists>evs. trace w' = trace w @ evs \<and> list_all is_quiet_event evs" and "links w' = links w"
proof -
  have "(\<exists>evs. trace w' = trace w @ evs \<and> list_all is_quiet_event evs) \<and> links w' = links w"
    using assms
  proof (cases rule: Deploy_cases)
    case (mkdir e)
    then show ?thesis using os_MkdirAll_effect [OF mkdir(1)] by simp
  next
    case (check w1 e)
    then show ?thesis
      using os_MkdirAll_effect [OF check(1)] checkMachineId_effect [OF check(2)] by auto
  next
    case (build w1 w2 rb)
    then show ?thesis
      using os_MkdirAll_effect [OF build(1)] checkMachineId_effect [OF build(2)]
        Build_effect [OF build(3)] by auto
  next
    case (hash1 w1 w2 w3 outPath h e)
    then show ?thesis
      using os_MkdirAll_effect [OF hash1(1)] checkMachineId_effect [OF hash1(2)]
        Build_effect [OF hash1(3)] cominUnitFileHash_effect [OF hash1(4)] by auto
  next
    case (profile w1 w2 w3 w4 outPath before e)
    then show ?thesis
      using os_MkdirAll_effect [OF profile(1)] checkMachineId_effect [OF profile(2)]
        Build_effect [OF profile(3)] cominUnitFileHash_effect [OF profile(4)]
        setSystemProfile_effect [OF profile(5)]
      by (auto simp: profile_events_def)
  next
    case (switch w1 w2 w3 w4 w5 outPath before e)
    then show ?thesis
      using os_MkdirAll_effect [OF switch(1)] checkMachineId_effect [OF switch(2)]
        Build_effect [OF switch(3)] cominUnitFileHash_effect [OF switch(4)]
        setSystemProfile_effect [OF switch(5)] switchToConfiguration_effect [OF switch(6)]
      by (auto simp: profile_events_def switch_events_def)
  next
    case (hash2 w1 w2 w3 w4 w5 w6 outPath before h e)
    then show ?thesis
      using os_MkdirAll_effect [OF hash2(1)] checkMachineId_effect [OF hash2(2)]
        Build_effect [OF hash2(3)] cominUnitFileHash_effect [OF hash2(4)]
        setSystemProfile_effect [OF hash2(5)] switchToConfiguration_effect [OF hash2(6)]
        cominUnitFileHash_effect [OF hash2(7)]
      by (auto simp: profile_events_def switch_events_def)
  next
    case (gc w1 w2 w3 w4 w5 w6 w7 outPath before after e)
    then show ?thesis
      using createGcRoot_dryRun [OF gc(8)] by simp
  next
    case (success w1 w2 w3 w4 w5 w6 w7 w8 outPath before after)
    then show ?thesis
      using os_MkdirAll_effect [OF success(1)] checkMachineId_effect [OF success(2)]
        Build_effect [OF success(3)] cominUnitFileHash_effect [OF success(4)]
        setSystemProfile_effect [OF success(5)] switchToConfiguration_effect [OF success(6)]
        cominUnitFileHash_effect [OF success(7)] createGcRoot_dryRun [OF success(8)]
      by (auto simp: profile_events_def switch_events_def logrus_Infof_def)
  qed
  then show "\<exists>evs. trace w' = trace w @ evs \<and> list_all is_quiet_event evs" and "links w' = links w"
    by simp_all
qed

subsection \<open>Runs of the test doubles\<close>

lemma world_log [simp]:
  "ext (logrus_Infof m w) = ext w" "trace (logrus_Infof m w) = trace w"
  "links (logrus_Infof m w) = links w"
  "ext (logrus_Debugf m w) = ext w" "trace (logrus_Debugf m w) = trace w"
  "links (logrus_Debugf m w) = links w"
  by (simp_all add: logrus_Infof_def logrus_Debugf_def)

lemma runNixCommand_fst:
  "fst (runNixCommand E args w) =
     (case fst (run_cmd E ''nix'' (commonArgs @ args) (ext w)) of
        Inl e \<Rightarrow> (Some (CommandFails (''nix '' @ strings_Join (commonArgs @ args) '' '') e), [])
      | Inr out \<Rightarrow> (None, out))"
  by (simp add: runNixCommand_def exec_Run_def Let_def split_beta split: sum.splits)

lemma runNixCommand_ext:
  "ext (snd (runNixCommand E args w)) = snd (run_cmd E ''nix'' (commonArgs @ args) (ext w))"
  by (simp add: runNixCommand_def exec_Run_def Let_def split_beta split: sum.splits)

lemma demo_run_nix:
  "demo_run sc ''nix'' (commonArgs @ sub # rest) x =
     (if sub = ''eval'' then (eval_result sc, x)
      else if sub = ''show-derivation'' then (drv_result sc, x)
      else (case build_error sc of None \<Rightarrow> (Inr [], x) | Some e \<Rightarrow> (Inl e, x)))"
  by (simp add: demo_run_def commonArgs_def)

lemma demo_run_cmd [simp]: "run_cmd (demo_env sc) = demo_run sc"
  by (simp add: demo_env_def)

lemma demo_parse: "parse_json (demo_env sc) bytes =
    (case map_of (documents sc) bytes of None \<Rightarrow> Inl ''invalid character'' | Some j \<Rightarrow> Inr j)"
  by (simp add: demo_env_def)

lemma demo_documents_null: "map_of demo_documents ''null'' = Some JNull"
  by (simp add: demo_documents_def)

lemma demo_documents_id: "map_of demo_documents (quoted ''id-1'') = Some (JString ''id-1'')"
  by (simp add: demo_documents_def quoted_def)

lemma demo_documents_empty: "map_of demo_documents ''{}'' = Some (JObject [])"
  by (simp add: demo_documents_def quoted_def)

lemma demo_documents_web1: "map_of demo_documents web1_text
    = Some (JObject [drv_entry_json ''/nix/store/abc-web1.drv'' ''/nix/store/abc-web1''])"
  by (simp add: demo_documents_def web1_text_def drv_entry_text_def quoted_def)

lemma decode_entry:
  "decode_Derivation (snd (drv_entry_json drv out)) zero_Derivation
     = Inr \<lparr>Outputs = \<lparr>Out = \<lparr>Path = out\<rparr>\<rparr>\<rparr>"
  by (simp add: drv_entry_json_def decode_Derivation_def decode_Output_def decode_Path_def
                decode_string_def equalFold_def zero_Derivation_def)

lemma demo_check_null:
  assumes "eval_result sc = Inr ''null''" and "documents sc = demo_documents"
  shows "fst (checkMachineId (demo_env sc) path hostname w) = None"
    and "ext (snd (checkMachineId (demo_env sc) path hostname w)) = ext w"
  using assms
  by (simp_all add: checkMachineId_def getExpectedMachineId_def split_beta runNixCommand_fst
                runNixCommand_ext demo_run_nix
                unmarshal_string_ptr_def demo_parse demo_documents_null)

lemma permute_single [simp]: "permute cs [x] = [x]"
  by (cases cs) simp_all

lemma demo_show_web1:
  assumes "drv_result sc = Inr web1_text" and "documents sc = demo_documents"
  shows "fst (showDerivation (demo_env sc) path hostname w)
           = Returns (''/nix/store/abc-web1.drv'', ''/nix/store/abc-web1'', None)"
    and "ext (snd (showDerivation (demo_env sc) path hostname w)) = ext w"
  using assms decode_entry [of "''/nix/store/abc-web1.drv''" "''/nix/store/abc-web1''"]
  by (simp_all add: showDerivation_def split_beta runNixCommand_fst runNixCommand_ext demo_run_nix
                unmarshal_derivations_def demo_parse demo_documents_web1
                drv_entry_json_def range_keys_def map_index_def Let_def)

lemma demo_build_web1:
  assumes "drv_result sc = Inr web1_text" and "documents sc = demo_documents"
    and "build_error sc = None"
  shows "fst (Build (demo_env sc) path hostname w) = Returns (''/nix/store/abc-web1'', None)"
    and "ext (snd (Build (demo_env sc) path hostname w)) = ext w"
proof -
  obtain w1 where s: "showDerivation (demo_env sc) path hostname w
      = (Returns (''/nix/store/abc-web1.drv'', ''/nix/store/abc-web1'', None), w1)"
    and e: "ext w1 = ext w"
    using demo_show_web1 [OF assms(1,2), of path hostname w]
    by (cases "showDerivation (demo_env sc) path hostname w") simp
  show "fst (Build (demo_env sc) path hostname w) = Returns (''/nix/store/abc-web1'', None)"
    using s assms(3)
    by (simp add: Build_def split_beta runNixCommand_fst demo_run_nix)
  show "ext (snd (Build (demo_env sc) path hostname w)) = ext w"
    using s e assms(3)
    by (simp add: Build_def split_beta runNixCommand_ext demo_run_nix)
qed

lemma demo_hash:
  "fst (cominUnitFileHash (demo_env sc) w) = (hex (ext w), None)"
  "ext (snd (cominUnitFileHash (demo_env sc) w)) = ext w"
  by (simp_all add: cominUnitFileHash_def exec_Run_def split_beta Let_def demo_run_def
                    demo_env_def)

lemma demo_profile:
  assumes "profile_error sc = None"
  shows "fst (setSystemProfile (demo_env sc) operation outPath dryRun w) = None"
    and "ext (snd (setSystemProfile (demo_env sc) operation outPath dryRun w)) = ext w"
  using assms
  by (simp_all add: setSystemProfile_def exec_Run_def split_beta Let_def demo_run_def)

lemma web1_exe: "switchToConfigurationExe ''/nix/store/abc-web1''
    = ''/nix/store/abc-web1/bin/switch-to-configuration''"
  by (simp add: switchToConfigurationExe_def filepath_Join_def filepath_Clean_def)

lemma demo_mkdir:
  "fst (os_MkdirAll (demo_env sc) p w) = None" "ext (snd (os_MkdirAll (demo_env sc) p w)) = ext w"
  by (simp_all add: os_MkdirAll_def demo_env_def)

lemma demo_switch:
  assumes "switch_error sc = None"
  shows "fst (switchToConfiguration (demo_env sc) operation ''/nix/store/abc-web1'' dryRun w) = None"
    and "ext (snd (switchToConfiguration (demo_env sc) operation ''/nix/store/abc-web1'' dryRun w))
           = (if dryRun then ext w else unit_after sc)"
  using assms
  by (simp_all add: switchToConfiguration_def web1_exe exec_Run_def split_beta Let_def demo_run_def)




lemma web1_fields:
  "eval_result web1 = Inr ''null''" "documents web1 = demo_documents"
  "drv_result web1 = Inr web1_text" "build_error web1 = None" "profile_error web1 = None"
  "switch_error web1 = None" "symlink_error web1 = None" "unit_after web1 = ''[Service]''"
  by (simp_all add: web1_def)


lemma demo_documents_two: "map_of demo_documents two_text
    = Some (JObject [drv_entry_json ''/nix/store/abc-web1.drv'' ''/nix/store/abc-web1'',
                     drv_entry_json ''/nix/store/xyz-dep.drv'' ''/nix/store/xyz-dep''])"
  by (simp add: demo_documents_def web1_text_def two_text_def drv_entry_text_def quoted_def)

lemma demo_show_two:
  assumes "drv_result sc = Inr two_text" and "documents sc = demo_documents"
  shows "order sc = [0] \<Longrightarrow> fst (showDerivation (demo_env sc) path hostname w)
           = Returns (''/nix/store/abc-web1.drv'', ''/nix/store/abc-web1'', None)"
    and "order sc = [1] \<Longrightarrow> fst (showDerivation (demo_env sc) path hostname w)
           = Returns (''/nix/store/xyz-dep.drv'', ''/nix/store/xyz-dep'', None)"
  using assms decode_entry [of "''/nix/store/abc-web1.drv''" "''/nix/store/abc-web1''"]
    decode_entry [of "''/nix/store/xyz-dep.drv''" "''/nix/store/xyz-dep''"]
  by (simp_all add: showDerivation_def split_beta runNixCommand_fst runNixCommand_ext demo_run_nix
                unmarshal_derivations_def demo_parse demo_documents_two
                drv_entry_json_def range_keys_def map_index_def Let_def demo_env_def)








subsection \<open>The safety check comes first\<close>

text \<open>
  C1. Whenever the machine identity check of a deployment fails, for whatever
  reason, \<open>Deploy\<close> returns that error, and the run has executed neither
  \<^verbatim>\<open>nix show-derivation\<close> nor \<^verbatim>\<open>nix build\<close>, nor the command that sets the system
  profile, nor \<^verbatim>\<open>switch-to-configuration\<close> of any output path; no link has changed.
\<close>

theorem failed_check_stops_Deploy:
  assumes "os_MkdirAll E stateDir w = (None, w1)"
    and "checkMachineId E path hostname w1 = (Some e, w2)"
  shows "Deploy E hostname stateDir path operation dryRun w = (Returns (False, Some e), w2)
         \<and> \<not> list_ex is_build_event (new_events w w2)
         \<and> \<not> list_ex is_profile_event (new_events w w2)
         \<and> (\<forall>outPath op. EvRun (switchToConfigurationExe outPath) [op] \<notin> set (new_events w w2))
         \<and> links w2 = links w"
proof -
  have d: "Deploy E hostname stateDir path operation dryRun w = (Returns (False, Some e), w2)"
    using assms by (simp add: Deploy_def)
  have t1: "trace w1 = trace w @ [EvMkdirAll stateDir]" and l1: "links w1 = links w"
    using os_MkdirAll_effect [OF assms(1)] by simp_all
  from checkMachineId_effect [OF assms(2)] t1
  have "new_events w w2 = [EvMkdirAll stateDir, eval_event path hostname]
        \<or> new_events w w2 = [EvMkdirAll stateDir, eval_event path hostname,
                              EvReadFile ''/etc/machine-id'']"
    by (auto intro: new_events_trace)
  moreover have "links w2 = links w"
    using checkMachineId_effect(2) [OF assms(2)] l1 by simp
  ultimately show ?thesis
    using d by (auto simp: eval_event_not_build eval_event_not_profile eval_event_not_switch)
qed

theorem failed_check_stops_Deploy_witness:
  "os_MkdirAll (demo_env mismatch) ''/var/lib/comin'' world0
     = (None, snd (os_MkdirAll (demo_env mismatch) ''/var/lib/comin'' world0))
   \<and> fst (checkMachineId (demo_env mismatch) ''.'' ''web1''
           (snd (os_MkdirAll (demo_env mismatch) ''/var/lib/comin'' world0)))
     = Some (MachineIdMismatch ''id-1'' ''id-2'')
   \<and> fst (Deploy (demo_env mismatch) ''web1'' ''/var/lib/comin'' ''.'' ''switch'' False world0)
     = Returns (False, Some (MachineIdMismatch ''id-1'' ''id-2''))
   \<and> \<not> list_ex is_build_event
         (trace (snd (Deploy (demo_env mismatch) ''web1'' ''/var/lib/comin'' ''.'' ''switch''
                        False world0)))"
proof -
  let ?E = "demo_env mismatch"
  let ?w1 = "snd (os_MkdirAll ?E ''/var/lib/comin'' world0)"
  let ?w2 = "snd (checkMachineId ?E ''.'' ''web1'' ?w1)"
  have a: "fst (os_MkdirAll ?E ''/var/lib/comin'' world0) = None"
    by code_simp
  have b: "fst (checkMachineId ?E ''.'' ''web1'' ?w1) = Some (MachineIdMismatch ''id-1'' ''id-2'')"
    by code_simp
  have t0: "new_events world0 ?w2 = trace ?w2"
    by (simp add: new_events_def world0_def)
  from failed_check_stops_Deploy [OF pair_fstI [OF a] pair_fstI [OF b],
         where operation = "''switch''" and dryRun = False]
  show ?thesis using a b t0 by (simp add: pair_fstI [OF a, symmetric])
qed

subsection \<open>The system profile\<close>

text \<open>
  C7. \<open>setSystemProfile\<close> runs the \<^verbatim>\<open>nix-env\<close> command exactly when the operation is
  \<^verbatim>\<open>switch\<close> or \<^verbatim>\<open>boot\<close> and the run is not a dry run. For any other operation it
  returns nil and leaves the world as it is, whatever \<open>dryRun\<close>; in a dry run it
  returns nil, runs nothing, and for \<^verbatim>\<open>switch\<close> and \<^verbatim>\<open>boot\<close> writes its two log lines.
\<close>

theorem setSystemProfile_runs_iff:
  assumes "setSystemProfile E operation outPath dryRun w = (r, w')"
  shows "(list_ex is_profile_event (new_events w w')
            \<longleftrightarrow> (operation = ''switch'' \<or> operation = ''boot'') \<and> \<not> dryRun)
       \<and> new_events w w' = (if (operation = ''switch'' \<or> operation = ''boot'') \<and> \<not> dryRun
                              then [profile_event outPath] else [])
       \<and> (operation \<noteq> ''switch'' \<and> operation \<noteq> ''boot'' \<longrightarrow> r = None \<and> w' = w)
       \<and> (dryRun \<longrightarrow> r = None \<and> ext w' = ext w \<and> links w' = links w \<and> trace w' = trace w)
       \<and> (dryRun \<and> (operation = ''switch'' \<or> operation = ''boot'') \<longrightarrow>
            logs w' = logs w @
              [(Info, ''Running '' @ [CHR 0x27]
                        @ ''nix-env --profile /nix/var/nix/profiles/system --set '' @ outPath
                        @ [CHR 0x27]),
               (Info, ''Dry-run enabled: '' @ [CHR 0x27]
                        @ ''nix-env --profile /nix/var/nix/profiles/system --set '' @ outPath
                        @ [CHR 0x27] @ '' has not been executed'')])"
  using assms
  by (auto simp: setSystemProfile_def exec_Run_def logrus_Infof_def new_events_def
                 is_profile_event_def profile_event_def Let_def
           split: if_splits prod.splits sum.splits)

theorem setSystemProfile_runs_iff_witness:
  "new_events world0
     (snd (setSystemProfile (demo_env web1) ''switch'' ''/nix/store/abc-web1'' False world0))
     = [profile_event ''/nix/store/abc-web1'']
   \<and> snd (setSystemProfile (demo_env web1) ''test'' ''/nix/store/abc-web1'' False world0) = world0
   \<and> trace (snd (setSystemProfile (demo_env web1) ''boot'' ''/nix/store/abc-web1'' True world0))
     = trace world0"
  using setSystemProfile_runs_iff [OF prod.collapse [symmetric], where E = "demo_env web1"
          and operation = "''switch''" and outPath = "''/nix/store/abc-web1''"
          and dryRun = False and w = world0]
        setSystemProfile_runs_iff [OF prod.collapse [symmetric], where E = "demo_env web1"
          and operation = "''test''" and outPath = "''/nix/store/abc-web1''"
          and dryRun = False and w = world0]
        setSystemProfile_runs_iff [OF prod.collapse [symmetric], where E = "demo_env web1"
          and operation = "''boot''" and outPath = "''/nix/store/abc-web1''"
          and dryRun = True and w = world0]
  by simp

subsection \<open>The machine identity\<close>

text \<open>
  C6. Let \<^verbatim>\<open>nix eval\<close> of the machine identity option succeed. When its output is the
  JSON value \<^verbatim>\<open>null\<close>, \<open>getExpectedMachineId\<close> returns \<open>isSet = false\<close> and no error,
  and \<open>checkMachineId\<close> succeeds without reading \<^verbatim>\<open>/etc/machine-id\<close>. When the output is a
  JSON string, \<open>isSet\<close> is true, and the check fails with the read error when the file
  cannot be read, succeeds when the expected value equals the contents without the
  final newline, and otherwise fails with an error that carries both values.
\<close>

theorem checkMachineId_spec:
  assumes "run_cmd E ''nix''
             (commonArgs @ [''eval'',
                path @ ''#nixosConfigurations.'' @ hostname @ ''.config.services.comin.machineId'',
                ''--json'']) (ext w) = (Inr out, x)"
  shows "(parse_json E out = Inr JNull \<longrightarrow>
            fst (getExpectedMachineId E path hostname w) = (False, [], None)
          \<and> fst (checkMachineId E path hostname w) = None
          \<and> EvReadFile ''/etc/machine-id''
               \<notin> set (new_events w (snd (checkMachineId E path hostname w))))
       \<and> (\<forall>expected. parse_json E out = Inr (JString expected) \<longrightarrow>
            fst (getExpectedMachineId E path hostname w) = (True, expected, None)
          \<and> fst (checkMachineId E path hostname w) =
              (case read_file E ''/etc/machine-id'' x of
                 Inl e \<Rightarrow> Some (CannotReadMachineId e)
               | Inr bytes \<Rightarrow>
                   if expected = strings_TrimSuffix bytes [CHR 0x0A] then None
                   else Some (MachineIdMismatch expected (strings_TrimSuffix bytes [CHR 0x0A]))))"
  using assms
  by (auto simp: checkMachineId_def getExpectedMachineId_def runNixCommand_def exec_Run_def
                 unmarshal_string_ptr_def os_ReadFile_def logrus_Infof_def logrus_Debugf_def
                 new_events_def Let_def
           split: sum.splits)

theorem checkMachineId_spec_witness:
  "fst (checkMachineId (demo_env web1) ''.'' ''web1'' world0) = None
   \<and> fst (getExpectedMachineId (demo_env web1) ''.'' ''web1'' world0) = (False, [], None)
   \<and> fst (checkMachineId (demo_env mismatch) ''.'' ''web1'' world0)
       = Some (MachineIdMismatch ''id-1'' ''id-2'')"
proof -
  have a: "run_cmd (demo_env web1) ''nix''
             (commonArgs @ [''eval'',
                ''.'' @ ''#nixosConfigurations.'' @ ''web1'' @ ''.config.services.comin.machineId'',
                ''--json'']) (ext world0) = (Inr ''null'', ''[Service]'')"
    by code_simp
  have pa: "parse_json (demo_env web1) ''null'' = Inr JNull"
    by code_simp
  have b: "run_cmd (demo_env mismatch) ''nix''
             (commonArgs @ [''eval'',
                ''.'' @ ''#nixosConfigurations.'' @ ''web1'' @ ''.config.services.comin.machineId'',
                ''--json'']) (ext world0) = (Inr (quoted ''id-1''), ''[Service]'')"
    by code_simp
  have pb: "parse_json (demo_env mismatch) (quoted ''id-1'') = Inr (JString ''id-1'')"
    by code_simp
  have rb: "read_file (demo_env mismatch) ''/etc/machine-id'' ''[Service]''
              = Inr (''id-2'' @ [CHR 0x0A])"
    by code_simp
  have tb: "strings_TrimSuffix (''id-2'' @ [CHR 0x0A]) [CHR 0x0A] = ''id-2''"
    by code_simp
  from checkMachineId_spec [OF a] pa checkMachineId_spec [OF b] pb rb tb
  show ?thesis by simp
qed

subsection \<open>An empty answer of the derivation query\<close>

text \<open>
  C10. When \<^verbatim>\<open>nix show-derivation\<close> succeeds and prints the empty JSON object,
  \<open>showDerivation\<close> does not return an error: it panics on \<^verbatim>\<open>keys[0]\<close>, index out of
  range, and so do \<open>Build\<close> and a \<open>Deploy\<close> that has come as far as the build.
\<close>

theorem showDerivation_empty_object_panics:
  assumes "run_cmd E ''nix''
             (commonArgs @ [''show-derivation'',
                path @ ''#nixosConfigurations.'' @ hostname @ ''.config.system.build.toplevel'',
                ''-L'']) (ext w) = (Inr out, x)"
    and "parse_json E out = Inr (JObject [])"
  shows "fst (showDerivation E path hostname w)
           = Panics ''runtime error: index out of range [0] with length 0''
       \<and> fst (Build E path hostname w)
           = Panics ''runtime error: index out of range [0] with length 0''
       \<and> (\<forall>w0 w1 stateDir operation dryRun.
             os_MkdirAll E stateDir w0 = (None, w1) \<and> checkMachineId E path hostname w1 = (None, w)
             \<longrightarrow> fst (Deploy E hostname stateDir path operation dryRun w0)
                   = Panics ''runtime error: index out of range [0] with length 0'')"
proof -
  have s: "fst (showDerivation E path hostname w)
           = Panics ''runtime error: index out of range [0] with length 0''"
    using assms
    by (simp add: showDerivation_def runNixCommand_def exec_Run_def unmarshal_derivations_def
                  range_keys_def logrus_Infof_def Let_def)
  then have b: "fst (Build E path hostname w)
           = Panics ''runtime error: index out of range [0] with length 0''"
    by (cases "showDerivation E path hostname w") (simp add: Build_def)
  have "fst (Deploy E hostname stateDir path operation dryRun w0)
          = Panics ''runtime error: index out of range [0] with length 0''"
    if "os_MkdirAll E stateDir w0 = (None, w1)" "checkMachineId E path hostname w1 = (None, w)"
    for w0 w1 stateDir operation dryRun
    using that b by (cases "Build E path hostname w") (simp add: Deploy_def)
  with s b show ?thesis by blast
qed

theorem showDerivation_empty_object_panics_witness:
  "fst (showDerivation (demo_env empty_query) ''.'' ''web1'' world0)
     = Panics ''runtime error: index out of range [0] with length 0''
   \<and> fst (Build (demo_env empty_query) ''.'' ''web1'' world0)
     = Panics ''runtime error: index out of range [0] with length 0''"
proof -
  have a: "run_cmd (demo_env empty_query) ''nix''
             (commonArgs @ [''show-derivation'',
                ''.'' @ ''#nixosConfigurations.'' @ ''web1'' @ ''.config.system.build.toplevel'',
                ''-L'']) (ext world0) = (Inr ''{}'', ''[Service]'')"
    by code_simp
  have p: "parse_json (demo_env empty_query) ''{}'' = Inr (JObject [])"
    by code_simp
  from showDerivation_empty_object_panics [OF a p] show ?thesis by simp
qed

subsection \<open>Dry runs\<close>

text \<open>
  C4. A run of \<open>Deploy\<close> with \<open>dryRun\<close> set never executes the command that sets the
  system profile, never invokes \<^verbatim>\<open>switch-to-configuration\<close> of any output path, never
  removes or creates a link, and leaves every link as it was, the root of the host among
  them. When the state directory, the identity check, the build and the two
  fingerprints succeed, the run returns without an error.
\<close>

theorem Deploy_dryRun:
  assumes "Deploy E hostname stateDir path operation True w = (r, w')"
  shows "\<not> list_ex is_profile_event (new_events w w')
       \<and> (\<forall>outPath op. switch_event op outPath \<notin> set (new_events w w'))
       \<and> \<not> list_ex is_link_event (new_events w w')
       \<and> links w' = links w
       \<and> (\<forall>w1 w2 w3 w4 w7 outPath before after.
             os_MkdirAll E stateDir w = (None, w1)
           \<and> checkMachineId E path hostname w1 = (None, w2)
           \<and> Build E path hostname w2 = (Returns (outPath, None), w3)
           \<and> cominUnitFileHash E w3 = ((before, None), w4)
           \<and> cominUnitFileHash E
                (snd (switchToConfiguration E operation outPath True
                       (snd (setSystemProfile E operation outPath True w4))))
                = ((after, None), w7)
           \<longrightarrow> r = Returns (before \<noteq> after, None))"
proof -
  from Deploy_dryRun_effect [OF assms] obtain evs where
    evs: "new_events w w' = evs" "list_all is_quiet_event evs" and l: "links w' = links w"
    by (auto simp: new_events_def)
  have a: "\<not> list_ex is_profile_event (new_events w w')"
    and b: "\<forall>outPath op. switch_event op outPath \<notin> set (new_events w w')"
    and c: "\<not> list_ex is_link_event (new_events w w')"
    using evs quiet_event_facts by (auto simp: list_all_iff list_ex_iff) blast
  have d: "r = Returns (before \<noteq> after, None)"
    if "os_MkdirAll E stateDir w = (None, w1)"
      "checkMachineId E path hostname w1 = (None, w2)"
      "Build E path hostname w2 = (Returns (outPath, None), w3)"
      "cominUnitFileHash E w3 = ((before, None), w4)"
      "cominUnitFileHash E
                (snd (switchToConfiguration E operation outPath True
                       (snd (setSystemProfile E operation outPath True w4))))
                = ((after, None), w7)"
    for w1 w2 w3 w4 w7 outPath before after
  proof -
    obtain r5 w5 where p: "setSystemProfile E operation outPath True w4 = (r5, w5)"
      by (cases "setSystemProfile E operation outPath True w4")
    then have r5: "r5 = None"
      by (auto simp: setSystemProfile_def Let_def split: if_splits)
    obtain r6 w6 where s: "switchToConfiguration E operation outPath True w5 = (r6, w6)"
      by (cases "switchToConfiguration E operation outPath True w5")
    then have r6: "r6 = None"
      by (auto simp: switchToConfiguration_def Let_def)
    obtain r8 w8 where g: "createGcRoot E stateDir hostname outPath True w7 = (r8, w8)"
      by (cases "createGcRoot E stateDir hostname outPath True w7")
    then have r8: "r8 = None"
      by (auto simp: createGcRoot_def Let_def)
    from assms that p s g r5 r6 r8 show ?thesis
      by (simp add: Deploy_def)
  qed
  from a b c l d show ?thesis by blast
qed

theorem Deploy_dryRun_witness:
  "fst (Deploy (demo_env web1) ''web1'' ''/var/lib/comin'' ''.'' ''switch'' True world0)
     = Returns (False, None)
   \<and> links (snd (Deploy (demo_env web1) ''web1'' ''/var/lib/comin'' ''.'' ''switch'' True world0))
     = links world0
   \<and> \<not> list_ex is_profile_event
         (new_events world0
            (snd (Deploy (demo_env web1) ''web1'' ''/var/lib/comin'' ''.'' ''switch'' True world0)))"
proof -
  let ?E = "demo_env web1"
  let ?w1 = "snd (os_MkdirAll ?E ''/var/lib/comin'' world0)"
  let ?w2 = "snd (checkMachineId ?E ''.'' ''web1'' ?w1)"
  let ?w3 = "snd (Build ?E ''.'' ''web1'' ?w2)"
  let ?w4 = "snd (cominUnitFileHash ?E ?w3)"
  let ?w6 = "snd (switchToConfiguration ?E ''switch'' ''/nix/store/abc-web1'' True
                    (snd (setSystemProfile ?E ''switch'' ''/nix/store/abc-web1'' True ?w4)))"
  let ?w7 = "snd (cominUnitFileHash ?E ?w6)"
  have a1: "os_MkdirAll ?E ''/var/lib/comin'' world0 = (None, ?w1)"
    by (rule pair_fstI) (rule demo_mkdir)
  have a2: "checkMachineId ?E ''.'' ''web1'' ?w1 = (None, ?w2)"
    by (rule pair_fstI) (rule demo_check_null [OF web1_fields(1,2)])
  have a3: "Build ?E ''.'' ''web1'' ?w2 = (Returns (''/nix/store/abc-web1'', None), ?w3)"
    by (rule pair_fstI) (rule demo_build_web1 [OF web1_fields(3,2,4)])
  have a4: "cominUnitFileHash ?E ?w3 = ((hex (ext ?w3), None), ?w4)"
    by (rule pair_fstI) (rule demo_hash)
  have a5: "cominUnitFileHash ?E ?w6 = ((hex (ext ?w6), None), ?w7)"
    by (rule pair_fstI) (rule demo_hash)
  have e: "ext ?w6 = ext ?w3"
    by (simp add: demo_switch [OF web1_fields(6)] demo_profile [OF web1_fields(5)] demo_hash)
  note T = Deploy_dryRun [OF prod.collapse [symmetric], where E = ?E and hostname = "''web1''"
         and stateDir = "''/var/lib/comin''" and path = "''.''" and operation = "''switch''"
         and w = world0]
  note f = T [THEN conjunct1]
  note l = T [THEN conjunct2, THEN conjunct2, THEN conjunct2, THEN conjunct1]
  note s = T [THEN conjunct2, THEN conjunct2, THEN conjunct2, THEN conjunct2, rule_format,
              OF conjI [OF a1 conjI [OF a2 conjI [OF a3 conjI [OF a4 a5]]]]]
  have r: "fst (Deploy ?E ''web1'' ''/var/lib/comin'' ''.'' ''switch'' True world0)
             = Returns (False, None)"
    using s e by simp
  show ?thesis by (rule conjI [OF r conjI [OF l f]])
qed

subsection \<open>Restarting the agent\<close>



subsection \<open>Which derivation is selected\<close>

lemma range_keys_single: "range_keys cs [(k, d)] = [k]"
  by (simp add: range_keys_def)

text \<open>
  C2. The claim asks that for a derivation query with several entries two runs of
  \<open>showDerivation\<close> select the same entry. The code takes the first key of a \<^verbatim>\<open>range\<close>
  over the map: on the same query output with two entries, the run in which the
  iteration starts at the first entry returns one derivation and its output path, and
  the run in which it starts at the second returns the other.
\<close>

theorem showDerivation_follows_range_order:
  "fst (showDerivation (demo_env (two_entries\<lparr>order := [0]\<rparr>)) ''.'' ''web1'' world0)
     = Returns (''/nix/store/abc-web1.drv'', ''/nix/store/abc-web1'', None)
   \<and> fst (showDerivation (demo_env (two_entries\<lparr>order := [1]\<rparr>)) ''.'' ''web1'' world0)
     = Returns (''/nix/store/xyz-dep.drv'', ''/nix/store/xyz-dep'', None)
   \<and> drv_result (two_entries\<lparr>order := [0]\<rparr>) = drv_result (two_entries\<lparr>order := [1]\<rparr>)"
  by (simp add: demo_show_two two_entries_def web1_def)

subsection \<open>The webhook\<close>



subsection \<open>The trigger gate\<close>

lemma gate_invariant: "running (gate_run evs) \<le> 1 \<and> (busy (gate_run evs) \<longleftrightarrow> running (gate_run evs) = 1)"
proof (induction evs rule: rev_induct)
  case Nil
  then show ?case by (simp add: gate_run_def idle_gate_def)
next
  case (snoc ev evs)
  then show ?case
    by (cases ev) (auto simp: gate_run_def trigger_def complete_def)
qed

text \<open>
  C8. In every state the gate reaches at most one run is in progress, and the flag is
  set exactly when one is. A trigger at an idle gate is accepted, a second one while the
  run is in progress is refused and changes nothing, and once the run has completed,
  with success or with failure, a trigger is accepted again.
\<close>

theorem gate_single_flight:
  "running (gate_run evs) \<le> 1
   \<and> (busy (gate_run evs) \<longleftrightarrow> running (gate_run evs) = 1)
   \<and> (\<not> busy (gate_run evs) \<longrightarrow>
         fst (trigger (gate_run evs))
       \<and> \<not> fst (trigger (snd (trigger (gate_run evs))))
       \<and> snd (trigger (snd (trigger (gate_run evs)))) = snd (trigger (gate_run evs))
       \<and> fst (trigger (complete ok (snd (trigger (gate_run evs))))))
   \<and> (busy (gate_run evs) \<longrightarrow>
         \<not> fst (trigger (gate_run evs)) \<and> snd (trigger (gate_run evs)) = gate_run evs
       \<and> fst (trigger (complete ok (gate_run evs))))"
  using gate_invariant [of evs]
  by (auto simp: trigger_def complete_def)

theorem gate_single_flight_witness:
  "\<not> busy (gate_run [Trigger, Complete False])
   \<and> (fst (trigger (gate_run [Trigger, Complete False]))
       \<and> \<not> fst (trigger (snd (trigger (gate_run [Trigger, Complete False]))))
       \<and> snd (trigger (snd (trigger (gate_run [Trigger, Complete False]))))
           = snd (trigger (gate_run [Trigger, Complete False]))
       \<and> fst (trigger (complete True (snd (trigger (gate_run [Trigger, Complete False]))))))"
proof -
  have h: "\<not> busy (gate_run [Trigger, Complete False])"
    by (simp add: gate_run_def idle_gate_def trigger_def complete_def)
  show ?thesis
    by (rule conjI [OF h gate_single_flight [THEN conjunct2, THEN conjunct2, THEN conjunct1,
                                             rule_format, OF h]])
qed

subsection \<open>The root of a host\<close>







end
